theory Spec2Isabelle
  imports Complex_Main "HOL-Library.Sublist"
begin

text \<open>
  Cloud Architect AI (\<open>app.py\<close>): a Flask application whose endpoint \<open>POST /generate\<close>
  validates a project description, asks a generative model for an architecture
  recommendation, retrying when the model reports a rate limit, and maps the outcome to an
  HTTP response. The theory embeds \<open>_generate_with_retry\<close>,
  \<open>generate_architecture_recommendation\<close> and \<open>generate\<close> and proves the properties claimed
  of them.
\<close>

section \<open>Python strings\<close>

text \<open>
  A Python \<open>str\<close> is modelled as a \<open>string\<close> whose characters are code points: the
  type \<open>char\<close> covers the code points 0 to 255, and \<open>len\<close> is \<open>length\<close>.
  The substring test \<open>x in s\<close> is \<open>sublist x s\<close> of the library (\<open>s = ps @ x @ ss\<close> for
  some \<open>ps\<close> and \<open>ss\<close>).
\<close>

abbreviation str_in :: "string \<Rightarrow> string \<Rightarrow> bool" where
  "str_in x s \<equiv> sublist x s"

text \<open>\<open>str.isspace\<close> on one character: the white space of Python below code point 256.\<close>

definition isspace :: "char \<Rightarrow> bool" where
  "isspace c = (of_char c \<in> {9, 10, 11, 12, 13, 28, 29, 30, 31, 32, 133, 160 :: nat})"

text \<open>\<open>str.strip()\<close> without argument removes the white space at both ends.\<close>

definition strip :: "string \<Rightarrow> string" where
  "strip s = rev (dropWhile isspace (rev (dropWhile isspace s)))"

text \<open>
  \<open>str.lower()\<close>: below code point 256 the cased upper-case letters are \<open>A\<close> to \<open>Z\<close> and
  U+00C0 to U+00DE without the multiplication sign U+00D7; each one has its lower-case
  letter 32 code points further.
\<close>

definition lower_char :: "char \<Rightarrow> char" where
  "lower_char c =
     (let n = (of_char c :: nat)
      in if (65 \<le> n \<and> n \<le> 90) \<or> (192 \<le> n \<and> n \<le> 222 \<and> n \<noteq> 215)
         then char_of (n + 32) else c)"

definition lower :: "string \<Rightarrow> string" where
  "lower s = map lower_char s"

text \<open>A text written line by line: every line is followed by a line break.\<close>

definition text_lines :: "string list \<Rightarrow> string" where
  "text_lines ls = concat (map (\<lambda>l. l @ [CHR 0x0A]) ls)"


section \<open>The fixed texts\<close>

text \<open>
  \<open>ARCHITECTURE_PROMPT_TEMPLATE.format(project_description=...)\<close>: the template has one
  replacement field and no other brace, so the formatted prompt is the text before the
  field, the description, and the text after the field. The literal opens with a line
  break, directly behind the opening quotes.
\<close>

definition ARCHITECTURE_PROMPT_TEMPLATE_head :: string where
  "ARCHITECTURE_PROMPT_TEMPLATE_head = text_lines
    ['''',
     ''You are an expert Google Cloud Architect. Analyze the following software project description and provide a comprehensive Google Cloud architecture recommendation.'',
     '''']
    @ ''Project Description: ''"

definition ARCHITECTURE_PROMPT_TEMPLATE_tail :: string where
  "ARCHITECTURE_PROMPT_TEMPLATE_tail = text_lines
    ['''',
     '''',
     ''Please provide:'',
     ''1. Recommended Google Cloud services and their specific configurations'',
     ''2. Architecture diagram description or component relationships'',
     ''3. Scalability considerations and best practices'',
     ''4. Cost optimization suggestions'',
     ''5. Security recommendations'',
     ''6. Deployment strategy'',
     '''',
     ''Focus on practical, actionable recommendations that follow Google Cloud best practices. Structure your response clearly with headings and bullet points for easy reading.'']"

definition format_prompt :: "string \<Rightarrow> string" where
  "format_prompt project_description =
     ARCHITECTURE_PROMPT_TEMPLATE_head @ project_description @ ARCHITECTURE_PROMPT_TEMPLATE_tail"

text \<open>
  The sample recommendation of the demo mode. Six symbols of its diagram lie beyond code
  point 255; they are written as the three bytes of their UTF-8 encoding. Nothing in the
  program measures, trims or case-folds this text.
\<close>

definition rightwards_arrow :: string where
  "rightwards_arrow = [CHR 0xE2, CHR 0x86, CHR 0x92]"

definition downwards_arrow :: string where
  "downwards_arrow = [CHR 0xE2, CHR 0x86, CHR 0x93]"

definition box_down_right :: string where
  "box_down_right = [CHR 0xE2, CHR 0x94, CHR 0x8C]"

definition box_horizontal :: string where
  "box_horizontal = [CHR 0xE2, CHR 0x94, CHR 0x80]"

definition box_cross :: string where
  "box_cross = [CHR 0xE2, CHR 0x94, CHR 0xBC]"

definition box_down_left :: string where
  "box_down_left = [CHR 0xE2, CHR 0x94, CHR 0x90]"

definition demo_response :: string where
  "demo_response = text_lines
    ['''',
     ''# Google Cloud Architecture Recommendation'',
     '''',
     ''## Recommended Services'',
     ''- **Cloud Run**: Serverless container platform for your SaaS application'',
     ''- **Cloud SQL (PostgreSQL)**: Managed relational database with high availability'',
     ''- **Cloud Storage**: Object storage for file uploads and static assets'',
     ''- **Cloud Pub/Sub**: Message queue for email notifications and async tasks'',
     ''- **Cloud CDN**: Content delivery network for global performance'',
     ''- **Identity Platform**: Authentication and user management with RBAC'',
     '''',
     ''## Architecture Overview'',
     ''```'',
     ''Internet '' @ rightwards_arrow @ '' Cloud CDN '' @ rightwards_arrow @ '' Cloud Load Balancer'',
     ''                          '' @ downwards_arrow,
     ''                    Cloud Run (Auto-scaling)'',
     ''                          '' @ downwards_arrow,
     ''        '' @ box_down_right @ concat (replicate 17 box_horizontal) @ box_cross @ concat (replicate 17 box_horizontal) @ box_down_left,
     ''        '' @ downwards_arrow @ ''                 '' @ downwards_arrow @ ''                 '' @ downwards_arrow,
     ''    Cloud SQL       Cloud Storage      Pub/Sub'',
     ''    (Primary DB)    (File Storage)   (Async Tasks)'',
     ''```'',
     '''',
     ''## Scalability Considerations'',
     ''1. **Auto-scaling**: Cloud Run scales 0'' @ rightwards_arrow @ ''N based on traffic (handles work-hour spikes)'',
     ''2. **Read replicas**: Add Cloud SQL read replicas for query performance'',
     ''3. **Connection pooling**: Use Cloud SQL Proxy with connection limits'',
     ''4. **Caching**: Implement Cloud Memorystore (Redis) for session/data caching'',
     ''5. **Multi-region**: Deploy in multiple regions for global users'',
     '''',
     ''## Cost Optimization'',
     ''1. **Pay-per-use**: Cloud Run charges only for actual request time'',
     ''2. **Right-sizing**: Start with min instances = 0, scale based on actual load'',
     ''3. **Storage lifecycle**: Move old files to Coldline/Archive storage classes'',
     ''4. **Committed use**: Purchase 1-year commits for predictable workloads'',
     ''5. **Budget alerts**: Set up billing alerts at 50%, 80%, 100% thresholds'',
     '''',
     ''## Security Recommendations'',
     ''1. **VPC**: Run Cloud Run in VPC with private Cloud SQL connection'',
     ''2. **IAM**: Use service accounts with least-privilege principles'',
     ''3. **Identity Platform**: Built-in GDPR compliance features'',
     ''4. **Encryption**: Enable customer-managed encryption keys (CMEK)'',
     ''5. **Audit logs**: Enable Cloud Audit Logs for compliance tracking'',
     ''6. **WAF**: Use Cloud Armor for DDoS protection and rate limiting'',
     '''',
     ''## Deployment Strategy'',
     ''1. **CI/CD Pipeline**:'',
     ''   - Cloud Build for automated builds on git push'',
     ''   - Separate dev/staging/prod environments'',
     ''   - Blue-green deployments with traffic splitting'',
     ''   '',
     ''2. **Infrastructure as Code**:'',
     ''   - Terraform or Cloud Deployment Manager'',
     ''   - Version control all infrastructure configs'',
     '''',
     ''3. **Monitoring**:'',
     ''   - Cloud Monitoring for metrics and alerts'',
     ''   - Cloud Logging for centralized logs'',
     ''   - Error Reporting for exception tracking'',
     '''',
     ''## GDPR Compliance'',
     ''- Data residency: Deploy in EU regions (europe-west1)'',
     ''- Identity Platform: Built-in consent management'',
     ''- Cloud DLP: Automatic PII detection and redaction'',
     ''- Audit logs: 400-day retention for compliance'',
     '''',
     ''**Estimated Monthly Cost**: $500-2000 for 100k MAU (varies with actual usage patterns)'']"


section \<open>The external model and the effects of a request\<close>

text \<open>
  An exception object, as far as the program tells exceptions apart: whether it is an
  instance of \<open>Exception\<close>, which is what \<open>except Exception\<close> tests (\<open>KeyboardInterrupt\<close>,
  \<open>SystemExit\<close> and \<open>GeneratorExit\<close> are not), and what \<open>str(e)\<close> does: it returns a text
  (\<open>Inr\<close>) or raises another exception (\<open>Inl\<close>), as it does when \<open>__str__\<close> is faulty.
\<close>

datatype pyexc = PyExc (is_Exception: bool) (py_str: "pyexc + string")

text \<open>
  What the world does at one call \<open>model.generate_content(prompt)\<close>. Either the call
  returns a response object whose \<open>text\<close> attribute is missing or \<open>None\<close>
  (\<open>Response None\<close>) or a string, possibly empty (\<open>Response (Some t)\<close>). Or an exception
  \<open>e\<close> is raised (\<open>Throws e s\<close>), by the call or by reading the \<open>text\<close> of its response:
  both sit in the same \<open>try\<close> body. The second component \<open>s\<close> belongs to the retry that
  may follow this exception: before the next attempt the handler calls \<open>time.sleep\<close>, and
  the world decides here whether that call returns (\<open>None\<close>) or raises an exception
  (\<open>Some e'\<close>), as it does for a delay that the platform rejects or when a signal handler
  raises. It is read only when the handler does sleep.
\<close>

datatype call_result = Response "string option" | Throws pyexc "pyexc option"

text \<open>
  The common case: the exception is of class \<open>Exception\<close>, \<open>str(e)\<close> returns \<open>msg\<close>, and
  \<open>time.sleep\<close> returns.
\<close>

abbreviation Raises :: "string \<Rightarrow> call_result" where
  "Raises msg \<equiv> Throws (PyExc True (Inr msg)) None"

text \<open>
  The effects the program has on the world, in the order they happen: a call of the
  external model with a prompt, and a \<open>time.sleep\<close> that returned, with its delay in
  seconds. The messages printed for the operator are left out: they are no part of any
  response.
\<close>

datatype event = Call string | Sleep nat

text \<open>
  The external model is any function of what has happened so far and of the prompt, so
  what a call does may change from call to call and after a sleep.
\<close>

type_synonym generative_model = "event list \<Rightarrow> string \<Rightarrow> call_result"

text \<open>The module globals read by the generator, fixed when the process starts.\<close>

record config =
  DEMO_MODE :: bool
  model :: "generative_model option"


section \<open>The recommendation generator\<close>

text \<open>
  What \<open>_generate_with_retry\<close> returns is the tuple
  \<open>(success, text, error, rate_limited)\<close>, with \<open>None\<close> for an absent text or error.
\<close>

type_synonym outcome = "bool \<times> string option \<times> string option \<times> bool"

text \<open>The heuristic of the exception handler, on the text of the exception.\<close>

definition is_rate :: "string \<Rightarrow> bool" where
  "is_rate msg =
     (let lower = lower msg
      in list_ex (\<lambda>x. str_in x lower) [''429'', ''rate'', ''quota'', ''too many requests''])"

text \<open>
  The \<open>while\<close> loop. It is left through one of the \<open>return\<close> statements of its body
  (\<open>Returned\<close>), or because its condition fails (\<open>Exhausted\<close>, with the value of
  \<open>last_error\<close>), or by an exception that nothing in the function catches (\<open>Escaped\<close>):
  \<open>except Exception\<close> lets an exception pass that is not of class \<open>Exception\<close>, and
  \<open>str(e)\<close> and \<open>time.sleep(delay)\<close> are called inside the handler, outside any \<open>try\<close>.
  \<open>attempt\<close> starts at 0 and only grows, so it is a natural number; \<open>max_retries\<close> is any
  Python integer. Each iteration makes one call; the events are appended to the log.
\<close>

datatype loop_exit = Returned outcome | Exhausted "string option" | Escaped pyexc

function retry_loop ::
  "generative_model \<Rightarrow> string \<Rightarrow> int \<Rightarrow> nat \<Rightarrow> string option \<Rightarrow> event list
     \<Rightarrow> loop_exit \<times> event list" where
  "retry_loop m prompt max_retries attempt last_error lg =
     (if int attempt \<le> max_retries then
        (case m lg prompt of
           Response text \<Rightarrow>
             (if text \<noteq> None \<and> text \<noteq> Some []
              then (Returned (True, text, None, False), lg @ [Call prompt])
              else (Returned (False, None, Some ''No response generated from Gemini API.'', False),
                    lg @ [Call prompt]))
         | Throws e s \<Rightarrow>
             (if \<not> is_Exception e then (Escaped e, lg @ [Call prompt])
              else case py_str e of
                Inl e' \<Rightarrow> (Escaped e', lg @ [Call prompt])
              | Inr msg \<Rightarrow>
                  (if is_rate msg \<and> int attempt < max_retries
                   then (case s of
                           Some e' \<Rightarrow> (Escaped e', lg @ [Call prompt])
                         | None \<Rightarrow>
                             retry_loop m prompt max_retries (attempt + 1) (Some msg)
                               (lg @ [Call prompt, Sleep (2 ^ attempt)]))
                   else (Returned (False, None,
                           Some (''Error generating architecture recommendation: '' @ msg),
                           is_rate msg),
                         lg @ [Call prompt]))))
      else (Exhausted last_error, lg))"
  by pat_completeness auto
termination
  by (relation "measure (\<lambda>(m, prompt, max_retries, attempt, last_error, lg).
        nat (max_retries + 1 - int attempt))") auto

text \<open>
  \<open>_generate_with_retry(prompt, max_retries)\<close>: \<open>Inr r\<close> when it returns the tuple \<open>r\<close>,
  \<open>Inl e\<close> when the exception \<open>e\<close> leaves it. After the loop,
  \<open>last_error or 'Unknown error'\<close> takes the second text when \<open>last_error\<close> is \<open>None\<close> or
  empty.
\<close>

definition generate_with_retry ::
  "config \<Rightarrow> string \<Rightarrow> int \<Rightarrow> event list \<Rightarrow> (pyexc + outcome) \<times> event list" where
  "generate_with_retry cfg prompt max_retries lg =
     (if DEMO_MODE cfg then (Inr (True, Some demo_response, None, False), lg)
      else case model cfg of
        None \<Rightarrow>
          (Inr (False, None, Some ''Gemini API is not configured. Please check your API key.'',
                False),
           lg)
      | Some m \<Rightarrow>
          (case retry_loop m prompt max_retries 0 None lg of
             (Returned r, lg') \<Rightarrow> (Inr r, lg')
           | (Exhausted last_error, lg') \<Rightarrow>
               (Inr (False, None,
                  Some (''Error generating architecture recommendation: '' @
                    (case last_error of
                       None \<Rightarrow> ''Unknown error''
                     | Some e \<Rightarrow> if e = [] then ''Unknown error'' else e)),
                  False), lg')
           | (Escaped e, lg') \<Rightarrow> (Inl e, lg')))"


text \<open>
  \<open>generate_architecture_recommendation(project_description)\<close> formats the prompt, calls
  \<open>_generate_with_retry(prompt)\<close> and unpacks its result, dropping the fourth component.
  Python finds \<open>_generate_with_retry\<close> in the module when the call happens; the model
  takes the function bound to that name as the argument \<open>gen\<close>. An exception that leaves
  the callee leaves this function too.
\<close>

definition generate_architecture_recommendation ::
  "(string \<Rightarrow> event list \<Rightarrow> (pyexc + outcome) \<times> event list) \<Rightarrow> string \<Rightarrow> event list
     \<Rightarrow> (pyexc + bool \<times> string option \<times> string option) \<times> event list" where
  "generate_architecture_recommendation gen project_description lg =
     (let prompt = format_prompt project_description
      in case gen prompt lg of
           (Inl e, lg') \<Rightarrow> (Inl e, lg')
         | (Inr (success, text, error, _), lg') \<Rightarrow> (Inr (success, text, error), lg'))"


section \<open>The request handler\<close>

text \<open>
  The Python values a JSON body parses to. A \<open>dict\<close> is the list of its items, looked up
  with \<open>map_of\<close>.
\<close>

datatype pyval =
    PyNone
  | PyBool bool
  | PyInt int
  | PyFloat real
  | PyStr string
  | PyList "pyval list"
  | PyDict "(string \<times> pyval) list"

text \<open>
  The exceptions inside the \<open>try\<close> body of the handler: those that the handler's own
  statements raise, all subclasses of \<open>Exception\<close> whose \<open>str\<close> returns, and an exception
  that comes out of the generator (\<open>Raised\<close>).
\<close>

datatype exn = BadRequest | TypeError | AttributeError | KeyError | Raised pyexc

text \<open>\<open>bool(v)\<close>, as \<open>not data\<close> uses it.\<close>

fun truthy :: "pyval \<Rightarrow> bool" where
  "truthy PyNone = False"
| "truthy (PyBool b) = b"
| "truthy (PyInt i) = (i \<noteq> 0)"
| "truthy (PyFloat x) = (x \<noteq> 0)"
| "truthy (PyStr s) = (s \<noteq> [])"
| "truthy (PyList xs) = (xs \<noteq> [])"
| "truthy (PyDict kvs) = (kvs \<noteq> [])"

text \<open>
  \<open>key in v\<close> for a string \<open>key\<close>: a key of a dict, an element of a list, a substring of a
  string; the other values are not iterable.
\<close>

fun py_in :: "string \<Rightarrow> pyval \<Rightarrow> exn + bool" where
  "py_in key (PyDict kvs) = Inr (map_of kvs key \<noteq> None)"
| "py_in key (PyList xs) = Inr (list_ex (\<lambda>v. v = PyStr key) xs)"
| "py_in key (PyStr s) = Inr (str_in key s)"
| "py_in key v = Inl TypeError"

text \<open>\<open>v[key]\<close> for a string \<open>key\<close>: only a dict can be indexed by a string.\<close>

fun py_getitem :: "pyval \<Rightarrow> string \<Rightarrow> exn + pyval" where
  "py_getitem (PyDict kvs) key = (case map_of kvs key of None \<Rightarrow> Inl KeyError | Some v \<Rightarrow> Inr v)"
| "py_getitem v key = Inl TypeError"

text \<open>\<open>v.strip()\<close>: only a string has the method.\<close>

fun py_strip :: "pyval \<Rightarrow> exn + string" where
  "py_strip (PyStr s) = Inr (strip s)"
| "py_strip v = Inl AttributeError"

text \<open>
  What the handler reads of the request: \<open>request.is_json\<close> tells whether the content type
  is a JSON type, and \<open>request.get_json()\<close> gives the parsed body or raises (Flask raises
  \<open>BadRequest\<close> when the body does not parse).
\<close>

record request =
  is_json :: bool
  get_json :: "exn + pyval"

text \<open>
  What the view returns: the dict given to \<open>jsonify\<close>, the status code and the headers it
  adds.
\<close>

record http_response =
  body :: "(string \<times> pyval) list"
  status :: nat
  headers :: "(string \<times> string) list"

definition error_response :: "string \<Rightarrow> nat \<Rightarrow> http_response" where
  "error_response msg code =
     \<lparr>body = [(''status'', PyStr ''error''), (''error'', PyStr msg)], status = code, headers = []\<rparr>"

definition success_response :: "string option \<Rightarrow> http_response" where
  "success_response response_text =
     \<lparr>body = [(''status'', PyStr ''success''),
              (''response'', case response_text of None \<Rightarrow> PyNone | Some t \<Rightarrow> PyStr t)],
      status = 200, headers = []\<rparr>"

definition rate_limit_response :: http_response where
  "rate_limit_response =
     \<lparr>body = [(''status'', PyStr ''error''),
              (''error'', PyStr ''Service temporarily unavailable due to high demand. Please try again in a few minutes.'')],
      status = 429, headers = [(''Retry-After'', ''60'')]\<rparr>"

text \<open>
  The body of the \<open>try\<close> statement of \<open>generate\<close>: \<open>Inl e\<close> when the exception \<open>e\<close> leaves
  it, \<open>Inr r\<close> when it returns the response \<open>r\<close>.
\<close>

definition generate_try ::
  "(string \<Rightarrow> event list \<Rightarrow> (pyexc + outcome) \<times> event list) \<Rightarrow> request \<Rightarrow> event list
     \<Rightarrow> (exn + http_response) \<times> event list" where
  "generate_try gen req lg =
     (if \<not> is_json req then (Inr (error_response ''Request must be JSON format'' 400), lg)
      else case get_json req of
        Inl e \<Rightarrow> (Inl e, lg)
      | Inr data \<Rightarrow>
          (case (if \<not> truthy data then Inr True
                 else case py_in ''prompt'' data of Inl e \<Rightarrow> Inl e | Inr b \<Rightarrow> Inr (\<not> b)) of
             Inl e \<Rightarrow> (Inl e, lg)
           | Inr True \<Rightarrow> (Inr (error_response ''Missing required field: prompt'' 400), lg)
           | Inr False \<Rightarrow>
               (case py_getitem data ''prompt'' of
                  Inl e \<Rightarrow> (Inl e, lg)
                | Inr v \<Rightarrow>
                    (case py_strip v of
                       Inl e \<Rightarrow> (Inl e, lg)
                     | Inr project_description \<Rightarrow>
                         if project_description = [] then
                           (Inr (error_response ''Project description cannot be empty'' 400), lg)
                         else if length project_description < 10 then
                           (Inr (error_response
                              ''Project description must be at least 10 characters long'' 400), lg)
                         else if length project_description > 5000 then
                           (Inr (error_response
                              ''Project description must be less than 5000 characters'' 400), lg)
                         else
                           (case generate_architecture_recommendation gen project_description lg of
                              (Inl x, lg') \<Rightarrow> (Inl (Raised x), lg')
                            | (Inr (success, response_text, error_message), lg') \<Rightarrow>
                                if success then (Inr (success_response response_text), lg')
                                else
                                  (case error_message of
                                     None \<Rightarrow> (Inl TypeError, lg')
                                   | Some em \<Rightarrow>
                                       if str_in ''API key'' em then
                                         (Inr (error_response
                                            ''Service configuration error. Please try again later.'' 500), lg')
                                       else if str_in ''quota'' (lower em) \<or> str_in ''rate'' (lower em)
                                               \<or> str_in ''429'' em then
                                         (Inr rate_limit_response, lg')
                                       else
                                         (Inr (error_response
                                            ''Unable to generate architecture recommendation. Please try again.'' 503),
                                          lg')))))))"

text \<open>
  The view function \<open>generate\<close>: the \<open>try\<close> body, and the handler that catches every
  \<open>Exception\<close>, evaluates \<open>str(e)\<close> for the message it prints and answers with status 500.
  \<open>Inr r\<close> when the view returns the response \<open>r\<close>; \<open>Inl e\<close> when the exception \<open>e\<close> leaves
  the view: one that is not of class \<open>Exception\<close>, or the one that \<open>str(e)\<close> raises inside
  the handler.
\<close>

definition generate ::
  "(string \<Rightarrow> event list \<Rightarrow> (pyexc + outcome) \<times> event list) \<Rightarrow> request \<Rightarrow> event list
     \<Rightarrow> (pyexc + http_response) \<times> event list" where
  "generate gen req lg =
     (case generate_try gen req lg of
        (Inr r, lg') \<Rightarrow> (Inr r, lg')
      | (Inl (Raised x), lg') \<Rightarrow>
          (if \<not> is_Exception x then (Inl x, lg')
           else case py_str x of
             Inl x' \<Rightarrow> (Inl x', lg')
           | Inr msg \<Rightarrow>
               (Inr (error_response ''An unexpected error occurred. Please try again.'' 500), lg'))
      | (Inl e, lg') \<Rightarrow>
          (Inr (error_response ''An unexpected error occurred. Please try again.'' 500), lg'))"

text \<open>
  The endpoint of the running application: the name \<open>_generate_with_retry\<close> is bound to the
  function above, called with its default \<open>max_retries = 2\<close>.
\<close>

definition post_generate ::
  "config \<Rightarrow> request \<Rightarrow> event list \<Rightarrow> (pyexc + http_response) \<times> event list" where
  "post_generate cfg req lg = generate (\<lambda>prompt. generate_with_retry cfg prompt 2) req lg"


section \<open>Observations and sample inputs\<close>

text \<open>The number of calls of the external model recorded in a list of events.\<close>

fun calls :: "event list \<Rightarrow> nat" where
  "calls [] = 0"
| "calls (Call p # es) = Suc (calls es)"
| "calls (Sleep n # es) = calls es"

text \<open>The status code of the response, when the view returns one.\<close>

definition status_of :: "(pyexc + http_response) \<times> event list \<Rightarrow> nat option" where
  "status_of res = (case fst res of Inl e \<Rightarrow> None | Inr r \<Rightarrow> Some (status r))"

text \<open>
  An external model that raises, at every call, the same exception of class \<open>Exception\<close>
  with the given text.
\<close>

definition always_raises :: "string \<Rightarrow> generative_model" where
  "always_raises msg h prompt = Raises msg"

text \<open>An external model whose every call does the same.\<close>

definition always :: "call_result \<Rightarrow> generative_model" where
  "always c h prompt = c"

text \<open>
  \<open>KeyboardInterrupt()\<close>: not of class \<open>Exception\<close>, and its \<open>str\<close> is the empty text. An
  exception of class \<open>Exception\<close> whose \<open>__str__\<close> returns a number: \<open>str(e)\<close> raises a
  \<open>TypeError\<close>.
\<close>

definition KeyboardInterrupt :: pyexc where
  "KeyboardInterrupt = PyExc False (Inr [])"

definition faulty_str :: pyexc where
  "faulty_str = PyExc True (Inl (PyExc True (Inr ''__str__ returned non-string (type int)'')))"

text \<open>A generator that returns the same outcome for every prompt, without any effect.\<close>

definition constant_generator ::
  "outcome \<Rightarrow> string \<Rightarrow> event list \<Rightarrow> (pyexc + outcome) \<times> event list" where
  "constant_generator r prompt lg = (Inr r, lg)"

text \<open>A request that passes the validation.\<close>

definition example_description :: string where
  "example_description = ''A web app for customer orders with auth and payments.''"

definition example_request :: request where
  "example_request =
     \<lparr>is_json = True, get_json = Inr (PyDict [(''prompt'', PyStr example_description)])\<rparr>"

text \<open>A request whose JSON object has the given value under the key \<open>prompt\<close>.\<close>

definition prompt_request :: "pyval \<Rightarrow> request" where
  "prompt_request v = \<lparr>is_json = True, get_json = Inr (PyDict [(''prompt'', v)])\<rparr>"

text \<open>
  A request with a JSON content type whose body does not parse: \<open>get_json\<close> raises.
\<close>

definition malformed_json_request :: request where
  "malformed_json_request = \<lparr>is_json = True, get_json = Inl BadRequest\<rparr>"

text \<open>The module globals without a credential and without demo mode, and with demo mode.\<close>

definition unconfigured :: config where
  "unconfigured = \<lparr>DEMO_MODE = False, model = None\<rparr>"

definition demo :: config where
  "demo = \<lparr>DEMO_MODE = True, model = None\<rparr>"

text \<open>The module globals with a configured external model and without demo mode.\<close>

definition configured :: "generative_model \<Rightarrow> config" where
  "configured m = \<lparr>DEMO_MODE = False, model = Some m\<rparr>"


section \<open>The retry loop\<close>


declare retry_loop.simps [simp del]

lemma calls_append: "calls (xs @ ys) = calls xs + calls ys"
  by (induction xs rule: calls.induct) auto

lemma retry_loop_retry:
  "m lg prompt = Raises msg \<Longrightarrow> is_rate msg \<Longrightarrow> int attempt < max_retries \<Longrightarrow>
   retry_loop m prompt max_retries attempt last_error lg =
   retry_loop m prompt max_retries (attempt + 1) (Some msg) (lg @ [Call prompt, Sleep (2 ^ attempt)])"
  by (subst retry_loop.simps) simp

lemma retry_loop_give_up:
  "m lg prompt = Raises msg \<Longrightarrow> int attempt \<le> max_retries \<Longrightarrow>
   \<not> (is_rate msg \<and> int attempt < max_retries) \<Longrightarrow>
   retry_loop m prompt max_retries attempt last_error lg =
   (Returned (False, None, Some (''Error generating architecture recommendation: '' @ msg),
      is_rate msg), lg @ [Call prompt])"
  by (subst retry_loop.simps) auto

lemma retry_loop_exhausted:
  "\<not> int attempt \<le> max_retries \<Longrightarrow>
   retry_loop m prompt max_retries attempt last_error lg = (Exhausted last_error, lg)"
  by (subst retry_loop.simps) simp

lemma retry_loop_bound:
  "int attempt \<le> max_retries \<Longrightarrow>
   \<exists>x evs. retry_loop m prompt max_retries attempt last_error lg = (x, lg @ evs)
     \<and> 1 \<le> calls evs \<and> int (calls evs) \<le> max_retries + 1 - int attempt
     \<and> ((\<exists>r. x = Returned r
            \<and> ((\<exists>t. r = (True, Some t, None, False)) \<or> (\<exists>msg rl. r = (False, None, Some msg, rl))))
          \<or> (\<exists>e. x = Escaped e))
     \<and> ((\<forall>h p. (\<exists>t. m h p = Response t) \<or> (\<exists>msg. m h p = Raises msg)) \<longrightarrow>
          (\<exists>r. x = Returned r))"
proof (induction m prompt max_retries attempt last_error lg rule: retry_loop.induct)
  case (1 m prompt max_retries attempt last_error lg)
  let ?tame = "\<forall>h p. (\<exists>t. m h p = Response t) \<or> (\<exists>msg. m h p = Raises msg)"
  show ?case
  proof (cases "m lg prompt")
    case (Response rtext)
    then show ?thesis using "1.prems"
      by (subst retry_loop.simps) (auto intro!: exI[of _ "[Call prompt]"])
  next
    case (Throws e s)
    show ?thesis
    proof (cases "is_Exception e")
      case False
      then have "retry_loop m prompt max_retries attempt last_error lg =
          (Escaped e, lg @ [Call prompt])"
        using Throws "1.prems" by (subst retry_loop.simps) simp
      moreover have "\<not> ?tame"
      proof
        assume ?tame
        then have "(\<exists>t. m lg prompt = Response t) \<or> (\<exists>msg. m lg prompt = Raises msg)" by blast
        with Throws False show False by auto
      qed
      ultimately show ?thesis using "1.prems" by (auto intro!: exI[of _ "[Call prompt]"])
    next
      case exc: True
      show ?thesis
      proof (cases "py_str e")
        case (Inl e')
        then have "retry_loop m prompt max_retries attempt last_error lg =
            (Escaped e', lg @ [Call prompt])"
          using Throws exc "1.prems" by (subst retry_loop.simps) simp
        moreover have "\<not> ?tame"
        proof
          assume ?tame
          then have "(\<exists>t. m lg prompt = Response t) \<or> (\<exists>msg. m lg prompt = Raises msg)"
            by blast
          with Throws Inl show False by auto
        qed
        ultimately show ?thesis using "1.prems" by (auto intro!: exI[of _ "[Call prompt]"])
      next
        case (Inr msg)
        show ?thesis
        proof (cases "is_rate msg \<and> int attempt < max_retries")
          case False
          then have "retry_loop m prompt max_retries attempt last_error lg =
              (Returned (False, None,
                 Some (''Error generating architecture recommendation: '' @ msg), is_rate msg),
               lg @ [Call prompt])"
            using Throws exc Inr "1.prems" by (subst retry_loop.simps) auto
          then show ?thesis using "1.prems" by (auto intro!: exI[of _ "[Call prompt]"])
        next
          case retry: True
          show ?thesis
          proof (cases s)
            case (Some e')
            then have "retry_loop m prompt max_retries attempt last_error lg =
                (Escaped e', lg @ [Call prompt])"
              using Throws exc Inr retry "1.prems" by (subst retry_loop.simps) simp
            moreover have "\<not> ?tame"
            proof
              assume ?tame
              then have "(\<exists>t. m lg prompt = Response t) \<or> (\<exists>msg. m lg prompt = Raises msg)"
                by blast
              with Throws Some show False by auto
            qed
            ultimately show ?thesis using "1.prems" by (auto intro!: exI[of _ "[Call prompt]"])
          next
            case None
            from retry have le: "int (attempt + 1) \<le> max_retries" by simp
            have exc': "\<not> \<not> is_Exception e" using exc by simp
            from "1.IH"[OF "1.prems" Throws exc' Inr retry None le]
            obtain x evs where
              step: "retry_loop m prompt max_retries (attempt + 1) (Some msg)
                       (lg @ [Call prompt, Sleep (2 ^ attempt)]) =
                     (x, (lg @ [Call prompt, Sleep (2 ^ attempt)]) @ evs)"
              and c: "1 \<le> calls evs" "int (calls evs) \<le> max_retries + 1 - int (attempt + 1)"
              and wf: "(\<exists>r. x = Returned r
                  \<and> ((\<exists>t. r = (True, Some t, None, False))
                     \<or> (\<exists>msg rl. r = (False, None, Some msg, rl))))
                \<or> (\<exists>e. x = Escaped e)"
              and tame: "?tame \<longrightarrow> (\<exists>r. x = Returned r)"
              by blast
            have "retry_loop m prompt max_retries attempt last_error lg =
                  (x, lg @ ([Call prompt, Sleep (2 ^ attempt)] @ evs))"
              using Throws exc Inr retry None "1.prems" step by (subst retry_loop.simps) simp
            moreover have "1 \<le> calls ([Call prompt, Sleep (2 ^ attempt)] @ evs)"
              by (simp add: calls_append)
            moreover have "int (calls ([Call prompt, Sleep (2 ^ attempt)] @ evs))
                \<le> max_retries + 1 - int attempt"
              using c by (simp add: calls_append)
            ultimately show ?thesis using wf tame by blast
          qed
        qed
      qed
    qed
  qed
qed

lemma generate_with_retry_outcome:
  "\<exists>x evs. generate_with_retry cfg prompt max_retries lg = (x, lg @ evs)
     \<and> (\<forall>r. x = Inr r \<longrightarrow>
          (\<exists>t. r = (True, Some t, None, False)) \<or> (\<exists>msg rl. r = (False, None, Some msg, rl)))
     \<and> ((\<forall>m. model cfg = Some m \<longrightarrow>
            (\<forall>h p. (\<exists>t. m h p = Response t) \<or> (\<exists>msg. m h p = Raises msg))) \<longrightarrow>
          (\<exists>r. x = Inr r))"
proof (cases "DEMO_MODE cfg")
  case True
  then show ?thesis by (auto simp add: generate_with_retry_def)
next
  case demo_off: False
  show ?thesis
  proof (cases "model cfg")
    case None
    with demo_off show ?thesis by (auto simp add: generate_with_retry_def)
  next
    case (Some m)
    show ?thesis
    proof (cases "0 \<le> max_retries")
      case True
      then have "int 0 \<le> max_retries" by simp
      from retry_loop_bound[OF this, of m prompt None lg]
      obtain x evs where loop: "retry_loop m prompt max_retries 0 None lg = (x, lg @ evs)"
        and shape: "(\<exists>r. x = Returned r
            \<and> ((\<exists>t. r = (True, Some t, None, False)) \<or> (\<exists>msg rl. r = (False, None, Some msg, rl))))
          \<or> (\<exists>e. x = Escaped e)"
        and tame: "(\<forall>h p. (\<exists>t. m h p = Response t) \<or> (\<exists>msg. m h p = Raises msg)) \<longrightarrow>
          (\<exists>r. x = Returned r)"
        by blast
      from shape show ?thesis
      proof
        assume "\<exists>r. x = Returned r
            \<and> ((\<exists>t. r = (True, Some t, None, False)) \<or> (\<exists>msg rl. r = (False, None, Some msg, rl)))"
        then obtain r where "x = Returned r"
          and "(\<exists>t. r = (True, Some t, None, False)) \<or> (\<exists>msg rl. r = (False, None, Some msg, rl))"
          by blast
        with demo_off Some loop show ?thesis by (auto simp add: generate_with_retry_def)
      next
        assume "\<exists>e. x = Escaped e"
        then obtain e where e: "x = Escaped e" by blast
        with tame have "\<not> (\<forall>h p. (\<exists>t. m h p = Response t) \<or> (\<exists>msg. m h p = Raises msg))"
          by auto
        with Some have "\<not> (\<forall>m. model cfg = Some m \<longrightarrow>
            (\<forall>h p. (\<exists>t. m h p = Response t) \<or> (\<exists>msg. m h p = Raises msg)))"
          by blast
        moreover have "generate_with_retry cfg prompt max_retries lg = (Inl e, lg @ evs)"
          using demo_off Some loop e by (simp add: generate_with_retry_def)
        ultimately show ?thesis by simp
      qed
    next
      case False
      then have "retry_loop m prompt max_retries 0 None lg = (Exhausted None, lg)"
        by (simp add: retry_loop_exhausted)
      with demo_off Some show ?thesis by (auto simp add: generate_with_retry_def)
    qed
  qed
qed

lemma generate_with_retry_returned:
  assumes "generate_with_retry cfg prompt max_retries lg = (Inr r, lg')"
  shows "(\<exists>t. r = (True, Some t, None, False)) \<or> (\<exists>msg rl. r = (False, None, Some msg, rl))"
proof -
  from generate_with_retry_outcome[of cfg prompt max_retries lg]
  obtain x evs where "generate_with_retry cfg prompt max_retries lg = (x, lg @ evs)"
    and "\<forall>r. x = Inr r \<longrightarrow>
          (\<exists>t. r = (True, Some t, None, False)) \<or> (\<exists>msg rl. r = (False, None, Some msg, rl))"
    by blast
  with assms show ?thesis by simp
qed

lemma three_attempts:
  assumes "\<not> DEMO_MODE cfg" and "model cfg = Some m"
    and "\<forall>h p. \<exists>msg. m h p = Raises msg \<and> is_rate msg"
  shows "\<exists>msg. m (lg @ [Call prompt, Sleep 1, Call prompt, Sleep 2]) prompt = Raises msg
     \<and> is_rate msg
     \<and> generate_with_retry cfg prompt 2 lg =
         (Inr (False, None, Some (''Error generating architecture recommendation: '' @ msg), True),
          lg @ [Call prompt, Sleep 1, Call prompt, Sleep 2, Call prompt])"
proof -
  from assms(3) obtain msg1 where 1: "m lg prompt = Raises msg1" "is_rate msg1" by blast
  from assms(3) obtain msg2 where
    2: "m (lg @ [Call prompt, Sleep 1]) prompt = Raises msg2" "is_rate msg2" by blast
  from assms(3) obtain msg3 where
    3: "m (lg @ [Call prompt, Sleep 1, Call prompt, Sleep 2]) prompt = Raises msg3" "is_rate msg3"
    by blast
  have "retry_loop m prompt 2 0 None lg =
        retry_loop m prompt 2 1 (Some msg1) (lg @ [Call prompt, Sleep 1])"
    using retry_loop_retry[where m = m and attempt = 0 and max_retries = 2 and last_error = None, OF 1]
    by simp
  also have "\<dots> = retry_loop m prompt 2 2 (Some msg2) (lg @ [Call prompt, Sleep 1, Call prompt, Sleep 2])"
    using retry_loop_retry[where m = m and attempt = 1 and max_retries = 2
        and last_error = "Some msg1", OF 2]
    by (simp add: numeral_2_eq_2)
  also have "\<dots> = (Returned (False, None,
        Some (''Error generating architecture recommendation: '' @ msg3), True),
      lg @ [Call prompt, Sleep 1, Call prompt, Sleep 2, Call prompt])"
    using retry_loop_give_up[where m = m and attempt = 2 and max_retries = 2
        and last_error = "Some msg2", OF 3(1)] 3(2)
    by (simp add: numeral_2_eq_2)
  finally have "generate_with_retry cfg prompt 2 lg =
     (Inr (False, None, Some (''Error generating architecture recommendation: '' @ msg3), True),
      lg @ [Call prompt, Sleep 1, Call prompt, Sleep 2, Call prompt])"
    using assms(1,2) by (simp add: generate_with_retry_def)
  with 3 show ?thesis by blast
qed

lemma single_attempt:
  assumes "\<not> DEMO_MODE cfg" and "model cfg = Some m" and "0 \<le> max_retries"
    and "m lg prompt = Raises msg" and "\<not> is_rate msg"
  shows "generate_with_retry cfg prompt max_retries lg =
     (Inr (False, None, Some (''Error generating architecture recommendation: '' @ msg), False),
      lg @ [Call prompt])"
  using assms retry_loop_give_up[where m = m and attempt = 0 and max_retries = max_retries
      and last_error = None, OF assms(4)]
  by (simp add: generate_with_retry_def)

lemma always_raises_rate_limited:
  assumes "is_rate msg"
  shows "generate_with_retry (configured (always_raises msg)) prompt 2 lg =
     (Inr (False, None, Some (''Error generating architecture recommendation: '' @ msg), True),
      lg @ [Call prompt, Sleep 1, Call prompt, Sleep 2, Call prompt])"
proof -
  have "\<forall>h p. \<exists>msg'. always_raises msg h p = Raises msg' \<and> is_rate msg'"
    using assms by (simp add: always_raises_def)
  from three_attempts[where cfg = "configured (always_raises msg)" and m = "always_raises msg",
      OF _ _ this, of lg prompt]
  show ?thesis by (auto simp add: configured_def always_raises_def)
qed

lemma always_raises_other:
  assumes "\<not> is_rate msg"
  shows "generate_with_retry (configured (always_raises msg)) prompt 2 lg =
     (Inr (False, None, Some (''Error generating architecture recommendation: '' @ msg), False),
      lg @ [Call prompt])"
  using single_attempt[where cfg = "configured (always_raises msg)" and m = "always_raises msg"
      and max_retries = 2 and lg = lg and prompt = prompt and msg = msg] assms
  by (simp add: configured_def always_raises_def)

lemma escapes_not_Exception:
  assumes "\<not> DEMO_MODE cfg" and "model cfg = Some m" and "0 \<le> max_retries"
    and "m lg prompt = Throws e s" and "\<not> is_Exception e"
  shows "generate_with_retry cfg prompt max_retries lg = (Inl e, lg @ [Call prompt])"
proof -
  have "retry_loop m prompt max_retries 0 None lg = (Escaped e, lg @ [Call prompt])"
    using assms(3-5) by (subst retry_loop.simps) simp
  with assms(1,2) show ?thesis by (simp add: generate_with_retry_def)
qed

lemma escapes_str:
  assumes "\<not> DEMO_MODE cfg" and "model cfg = Some m" and "0 \<le> max_retries"
    and "m lg prompt = Throws e s" and "is_Exception e" and "py_str e = Inl e'"
  shows "generate_with_retry cfg prompt max_retries lg = (Inl e', lg @ [Call prompt])"
proof -
  have "retry_loop m prompt max_retries 0 None lg = (Escaped e', lg @ [Call prompt])"
    using assms(3-6) by (subst retry_loop.simps) simp
  with assms(1,2) show ?thesis by (simp add: generate_with_retry_def)
qed

lemma escapes_sleep:
  assumes "\<not> DEMO_MODE cfg" and "model cfg = Some m" and "0 < max_retries"
    and "m lg prompt = Throws e (Some e')" and "is_Exception e" and "py_str e = Inr msg"
    and "is_rate msg"
  shows "generate_with_retry cfg prompt max_retries lg = (Inl e', lg @ [Call prompt])"
proof -
  have "retry_loop m prompt max_retries 0 None lg = (Escaped e', lg @ [Call prompt])"
    using assms(3-7) by (subst retry_loop.simps) simp
  with assms(1,2) show ?thesis by (simp add: generate_with_retry_def)
qed

text \<open>
  A negative \<open>max_retries\<close> is the one way to the \<open>return\<close> behind the loop: the loop body
  never runs and no call is made.
\<close>

lemma negative_max_retries:
  assumes "\<not> DEMO_MODE cfg" and "model cfg = Some m" and "max_retries < 0"
  shows "generate_with_retry cfg prompt max_retries lg =
     (Inr (False, None, Some ''Error generating architecture recommendation: Unknown error'', False),
      lg)"
  using assms by (simp add: generate_with_retry_def retry_loop_exhausted)


section \<open>Substrings of the failure message\<close>


lemma lower_append: "lower (a @ b) = lower a @ lower b"
  by (simp add: lower_def)

lemma lower_error_prefix:
  "lower ''Error generating architecture recommendation: '' =
   ''error generating architecture recommendation: ''"
  by code_simp

lemma error_prefix_API_key:
  "str_in ''API key'' (''Error generating architecture recommendation: '' @ msg) = str_in ''API key'' msg"
  by (simp add: sublist_Cons_right)

lemma error_prefix_429:
  "str_in ''429'' (''Error generating architecture recommendation: '' @ msg) = str_in ''429'' msg"
  by (simp add: sublist_Cons_right)

lemma error_prefix_quota:
  "str_in ''quota'' (lower (''Error generating architecture recommendation: '' @ msg)) =
   str_in ''quota'' (lower msg)"
  unfolding lower_append lower_error_prefix by (simp add: sublist_Cons_right)

lemma error_prefix_rate:
  "str_in ''rate'' (lower (''Error generating architecture recommendation: '' @ msg)) =
   str_in ''rate'' (lower msg)"
  unfolding lower_append lower_error_prefix by (simp add: sublist_Cons_right)




lemma configuration_message_API_key:
  "str_in ''API key'' ''Gemini API is not configured. Please check your API key.''"
  by (simp add: sublist_Cons_right)

lemma demo_response_heading:
  "prefix (CHR 0x0A # ''# Google Cloud Architecture Recommendation'' @ [CHR 0x0A]) demo_response"
  by (simp add: demo_response_def text_lines_def)


section \<open>The endpoint on a valid request\<close>


lemma generate_try_valid:
  assumes "is_json req" and "get_json req = Inr (PyDict kvs)"
    and "map_of kvs ''prompt'' = Some (PyStr s)"
    and "10 \<le> length (strip s)" and "length (strip s) \<le> 5000"
    and "gen (format_prompt (strip s)) lg = (Inr (success, t, e, rl), lg')"
  shows "generate_try gen req lg =
     (if success then (Inr (success_response t), lg')
      else case e of
        None \<Rightarrow> (Inl TypeError, lg')
      | Some em \<Rightarrow>
          if str_in ''API key'' em then
            (Inr (error_response ''Service configuration error. Please try again later.'' 500), lg')
          else if str_in ''quota'' (lower em) \<or> str_in ''rate'' (lower em) \<or> str_in ''429'' em then
            (Inr rate_limit_response, lg')
          else
            (Inr (error_response
               ''Unable to generate architecture recommendation. Please try again.'' 503), lg'))"
proof -
  from assms(3) have ne: "kvs \<noteq> []" by auto
  from assms(4) have ne2: "strip s \<noteq> []" by auto
  show ?thesis
    using assms ne ne2
    by (simp add: generate_try_def generate_architecture_recommendation_def)
qed

lemma generate_valid_success:
  assumes "is_json req" and "get_json req = Inr (PyDict kvs)"
    and "map_of kvs ''prompt'' = Some (PyStr s)"
    and "10 \<le> length (strip s)" and "length (strip s) \<le> 5000"
    and "gen (format_prompt (strip s)) lg = (Inr (True, t, e, rl), lg')"
  shows "generate gen req lg = (Inr (success_response t), lg')"
  using generate_try_valid[where gen = gen and success = True, OF assms] by (simp add: generate_def)

lemma generate_valid_failure:
  assumes "is_json req" and "get_json req = Inr (PyDict kvs)"
    and "map_of kvs ''prompt'' = Some (PyStr s)"
    and "10 \<le> length (strip s)" and "length (strip s) \<le> 5000"
    and "gen (format_prompt (strip s)) lg = (Inr (False, t, Some em, rl), lg')"
  shows "generate gen req lg =
     (Inr (if str_in ''API key'' em then
        error_response ''Service configuration error. Please try again later.'' 500
      else if str_in ''quota'' (lower em) \<or> str_in ''rate'' (lower em) \<or> str_in ''429'' em then
        rate_limit_response
      else error_response ''Unable to generate architecture recommendation. Please try again.'' 503),
      lg')"
  using generate_try_valid[where gen = gen and success = False, OF assms] by (simp add: generate_def)

text \<open>
  An exception that leaves the generator reaches the handler of the view: one of class
  \<open>Exception\<close> whose \<open>str\<close> returns is answered with status 500, any other leaves the view.
\<close>

lemma generate_valid_escape:
  assumes "is_json req" and "get_json req = Inr (PyDict kvs)"
    and "map_of kvs ''prompt'' = Some (PyStr s)"
    and "10 \<le> length (strip s)" and "length (strip s) \<le> 5000"
    and "gen (format_prompt (strip s)) lg = (Inl x, lg')"
  shows "generate gen req lg =
     (if \<not> is_Exception x then (Inl x, lg')
      else case py_str x of
        Inl x' \<Rightarrow> (Inl x', lg')
      | Inr msg \<Rightarrow>
          (Inr (error_response ''An unexpected error occurred. Please try again.'' 500), lg'))"
proof -
  from assms(3) have ne: "kvs \<noteq> []" by auto
  from assms(4) have ne2: "strip s \<noteq> []" by auto
  have "generate_try gen req lg = (Inl (Raised x), lg')"
    using assms ne ne2
    by (simp add: generate_try_def generate_architecture_recommendation_def)
  then show ?thesis by (simp add: generate_def)
qed

lemma post_generate_failure:
  assumes "is_json req" and "get_json req = Inr (PyDict kvs)"
    and "map_of kvs ''prompt'' = Some (PyStr s)"
    and "10 \<le> length (strip s)" and "length (strip s) \<le> 5000"
    and "generate_with_retry cfg (format_prompt (strip s)) 2 lg = (Inr (False, t, Some em, rl), lg')"
  shows "post_generate cfg req lg =
     (Inr (if str_in ''API key'' em then
        error_response ''Service configuration error. Please try again later.'' 500
      else if str_in ''quota'' (lower em) \<or> str_in ''rate'' (lower em) \<or> str_in ''429'' em then
        rate_limit_response
      else error_response ''Unable to generate architecture recommendation. Please try again.'' 503),
      lg')"
  unfolding post_generate_def
  by (rule generate_valid_failure[where gen = "\<lambda>prompt. generate_with_retry cfg prompt 2",
        OF assms(1-5)]) (rule assms(6))

lemma post_generate_success:
  assumes "is_json req" and "get_json req = Inr (PyDict kvs)"
    and "map_of kvs ''prompt'' = Some (PyStr s)"
    and "10 \<le> length (strip s)" and "length (strip s) \<le> 5000"
    and "generate_with_retry cfg (format_prompt (strip s)) 2 lg = (Inr (True, t, e, rl), lg')"
  shows "post_generate cfg req lg = (Inr (success_response t), lg')"
  unfolding post_generate_def
  by (rule generate_valid_success[where gen = "\<lambda>prompt. generate_with_retry cfg prompt 2",
        OF assms(1-5)]) (rule assms(6))

lemma post_generate_error_text:
  assumes "is_json req" and "get_json req = Inr (PyDict kvs)"
    and "map_of kvs ''prompt'' = Some (PyStr s)"
    and "10 \<le> length (strip s)" and "length (strip s) \<le> 5000"
    and "generate_with_retry cfg (format_prompt (strip s)) 2 lg =
           (Inr (False, t, Some (''Error generating architecture recommendation: '' @ msg), rl), lg')"
  shows "post_generate cfg req lg =
     (Inr (if str_in ''API key'' msg then
        error_response ''Service configuration error. Please try again later.'' 500
      else if str_in ''quota'' (lower msg) \<or> str_in ''rate'' (lower msg) \<or> str_in ''429'' msg then
        rate_limit_response
      else error_response ''Unable to generate architecture recommendation. Please try again.'' 503),
      lg')"
  using post_generate_failure[OF assms]
  unfolding error_prefix_API_key error_prefix_quota error_prefix_rate error_prefix_429 .

lemma example_strip: "strip example_description = example_description"
  by (simp add: example_description_def strip_def isspace_def)

lemma example_length: "length example_description = 53"
  by (simp add: example_description_def)

lemma example_request_valid:
  "is_json example_request"
  "get_json example_request = Inr (PyDict [(''prompt'', PyStr example_description)])"
  "map_of [(''prompt'', PyStr example_description)] ''prompt'' = Some (PyStr example_description)"
  "10 \<le> length (strip example_description)"
  "length (strip example_description) \<le> 5000"
  by (simp_all add: example_request_def example_strip example_length)

lemma dropWhile_replicate: "\<not> P c \<Longrightarrow> dropWhile P (replicate n c) = replicate n c"
  by (cases n) simp_all

lemma strip_replicate: "\<not> isspace c \<Longrightarrow> strip (replicate n c) = replicate n c"
  by (simp add: strip_def dropWhile_replicate)


lemma escaping_exception_at_endpoint:
  "post_generate (configured (always (Throws KeyboardInterrupt None))) example_request [] =
     (Inl KeyboardInterrupt, [Call (format_prompt example_description)])"
  "post_generate (configured (always (Throws faulty_str None))) example_request [] =
     (Inr (error_response ''An unexpected error occurred. Please try again.'' 500),
      [Call (format_prompt example_description)])"
proof -
  let ?p = "format_prompt (strip example_description)"
  have 1: "generate_with_retry (configured (always (Throws KeyboardInterrupt None))) ?p 2 [] =
      (Inl KeyboardInterrupt, [] @ [Call ?p])"
    by (rule escapes_not_Exception[where m = "always (Throws KeyboardInterrupt None)"
          and s = None])
       (simp_all add: configured_def always_def KeyboardInterrupt_def)
  have 2: "generate_with_retry (configured (always (Throws faulty_str None))) ?p 2 [] =
      (Inl (PyExc True (Inr ''__str__ returned non-string (type int)'')), [] @ [Call ?p])"
    by (rule escapes_str[where m = "always (Throws faulty_str None)" and s = None
          and e = faulty_str])
       (simp_all add: configured_def always_def faulty_str_def)
  show "post_generate (configured (always (Throws KeyboardInterrupt None))) example_request [] =
     (Inl KeyboardInterrupt, [Call (format_prompt example_description)])"
    unfolding post_generate_def
    using generate_valid_escape
      [where gen = "\<lambda>prompt. generate_with_retry
          (configured (always (Throws KeyboardInterrupt None))) prompt 2",
        OF example_request_valid 1]
    by (simp add: KeyboardInterrupt_def example_strip)
  show "post_generate (configured (always (Throws faulty_str None))) example_request [] =
     (Inr (error_response ''An unexpected error occurred. Please try again.'' 500),
      [Call (format_prompt example_description)])"
    unfolding post_generate_def
    using generate_valid_escape
      [where gen = "\<lambda>prompt. generate_with_retry
          (configured (always (Throws faulty_str None))) prompt 2",
        OF example_request_valid 2]
    by (simp add: example_strip)
qed


section \<open>Claims about the generator\<close>



text \<open>
  Claim C6, as the code has it. Whenever \<open>_generate_with_retry\<close> returns, what it returns
  is exactly one of the two terminal outcomes: a success carrying a text and no error, or
  a failure carrying a message and a flag and no text. It does return, whatever the
  configuration, the prompt and \<open>max_retries\<close> are, when every call of the external model
  returns a response, with or without text, or raises an exception of class \<open>Exception\<close>
  whose \<open>str\<close> returns, and \<open>time.sleep\<close> returns. The other exceptions are caught nowhere
  in the function and leave it: an exception of the call that is not of class
  \<open>Exception\<close>, the exception that \<open>str(e)\<close> raises, and the exception that \<open>time.sleep\<close>
  raises before a retry.
\<close>

theorem generate_with_retry_terminal_outcome:
  "(\<exists>x evs. generate_with_retry cfg prompt max_retries lg = (x, lg @ evs)
      \<and> (\<forall>r. x = Inr r \<longrightarrow>
           (\<exists>t. r = (True, Some t, None, False)) \<or> (\<exists>msg rl. r = (False, None, Some msg, rl)))
      \<and> ((\<forall>m. model cfg = Some m \<longrightarrow>
             (\<forall>h p. (\<exists>t. m h p = Response t) \<or> (\<exists>msg. m h p = Raises msg))) \<longrightarrow>
           (\<exists>r. x = Inr r)))
   \<and> (\<not> DEMO_MODE cfg \<and> model cfg = Some m \<and> 0 \<le> max_retries \<and> m lg prompt = Throws e s
        \<and> \<not> is_Exception e \<longrightarrow>
      generate_with_retry cfg prompt max_retries lg = (Inl e, lg @ [Call prompt]))
   \<and> (\<not> DEMO_MODE cfg \<and> model cfg = Some m \<and> 0 \<le> max_retries \<and> m lg prompt = Throws e s
        \<and> is_Exception e \<and> py_str e = Inl e' \<longrightarrow>
      generate_with_retry cfg prompt max_retries lg = (Inl e', lg @ [Call prompt]))
   \<and> (\<not> DEMO_MODE cfg \<and> model cfg = Some m \<and> 0 < max_retries \<and> m lg prompt = Throws e s
        \<and> is_Exception e \<and> py_str e = Inr msg \<and> is_rate msg \<and> s = Some e' \<longrightarrow>
      generate_with_retry cfg prompt max_retries lg = (Inl e', lg @ [Call prompt]))"
  using generate_with_retry_outcome[of cfg prompt max_retries lg]
    escapes_not_Exception[of cfg m max_retries lg prompt e s]
    escapes_str[of cfg m max_retries lg prompt e s e']
    escapes_sleep[of cfg m max_retries lg prompt e e' msg]
  by blast

theorem generate_with_retry_terminal_outcome_witness:
  "(\<exists>r evs. generate_with_retry (configured (always_raises ''boom'')) example_description 2 []
        = (Inr r, [] @ evs)
      \<and> ((\<exists>t. r = (True, Some t, None, False)) \<or> (\<exists>msg rl. r = (False, None, Some msg, rl))))
   \<and> generate_with_retry (configured (always (Throws KeyboardInterrupt None)))
        example_description 2 [] = (Inl KeyboardInterrupt, [Call example_description])
   \<and> generate_with_retry (configured (always (Throws faulty_str None)))
        example_description 2 [] =
        (Inl (PyExc True (Inr ''__str__ returned non-string (type int)'')),
         [Call example_description])
   \<and> generate_with_retry
        (configured (always (Throws (PyExc True (Inr ''429 Too Many Requests''))
           (Some KeyboardInterrupt))))
        example_description 2 [] = (Inl KeyboardInterrupt, [Call example_description])"
proof -
  let ?c = "configured (always_raises ''boom'')"
  have tame: "\<forall>m. model ?c = Some m \<longrightarrow>
      (\<forall>h p. (\<exists>t. m h p = Response t) \<or> (\<exists>msg. m h p = Raises msg))"
    by (simp add: configured_def always_raises_def)
  have r: "is_rate ''429 Too Many Requests''" by code_simp
  from generate_with_retry_terminal_outcome[of ?c example_description 2 "[]", THEN conjunct1]
  obtain x evs where "generate_with_retry ?c example_description 2 [] = (x, [] @ evs)"
    and "\<forall>r. x = Inr r \<longrightarrow>
           (\<exists>t. r = (True, Some t, None, False)) \<or> (\<exists>msg rl. r = (False, None, Some msg, rl))"
    and "(\<forall>m. model ?c = Some m \<longrightarrow>
             (\<forall>h p. (\<exists>t. m h p = Response t) \<or> (\<exists>msg. m h p = Raises msg))) \<longrightarrow>
           (\<exists>r. x = Inr r)"
    by blast
  with tame
  have "\<exists>r evs. generate_with_retry ?c example_description 2 [] = (Inr r, [] @ evs)
      \<and> ((\<exists>t. r = (True, Some t, None, False)) \<or> (\<exists>msg rl. r = (False, None, Some msg, rl)))"
    by auto
  moreover
  from generate_with_retry_terminal_outcome
    [of "configured (always (Throws KeyboardInterrupt None))" example_description 2 "[]"
        "always (Throws KeyboardInterrupt None)" KeyboardInterrupt None,
      THEN conjunct2, THEN conjunct1]
  have "generate_with_retry (configured (always (Throws KeyboardInterrupt None)))
        example_description 2 [] = (Inl KeyboardInterrupt, [Call example_description])"
    by (simp add: configured_def always_def KeyboardInterrupt_def)
  moreover
  from generate_with_retry_terminal_outcome
    [of "configured (always (Throws faulty_str None))" example_description 2 "[]"
        "always (Throws faulty_str None)" faulty_str None
        "PyExc True (Inr ''__str__ returned non-string (type int)'')",
      THEN conjunct2, THEN conjunct2, THEN conjunct1]
  have "generate_with_retry (configured (always (Throws faulty_str None)))
        example_description 2 [] =
        (Inl (PyExc True (Inr ''__str__ returned non-string (type int)'')),
         [Call example_description])"
    by (simp add: configured_def always_def faulty_str_def)
  moreover
  from generate_with_retry_terminal_outcome
    [of "configured (always (Throws (PyExc True (Inr ''429 Too Many Requests''))
           (Some KeyboardInterrupt)))" example_description 2 "[]"
        "always (Throws (PyExc True (Inr ''429 Too Many Requests'')) (Some KeyboardInterrupt))"
        "PyExc True (Inr ''429 Too Many Requests'')" "Some KeyboardInterrupt" KeyboardInterrupt
        "''429 Too Many Requests''", THEN conjunct2, THEN conjunct2, THEN conjunct2] r
  have "generate_with_retry
        (configured (always (Throws (PyExc True (Inr ''429 Too Many Requests''))
           (Some KeyboardInterrupt))))
        example_description 2 [] = (Inl KeyboardInterrupt, [Call example_description])"
    by (simp add: configured_def always_def)
  ultimately show ?thesis by blast
qed

theorem exception_leaves_counterexample:
  "\<not> is_Exception KeyboardInterrupt
   \<and> generate_with_retry (configured (always (Throws KeyboardInterrupt None)))
        (format_prompt example_description) 2 [] =
      (Inl KeyboardInterrupt, [Call (format_prompt example_description)])
   \<and> is_Exception faulty_str
   \<and> generate_with_retry (configured (always (Throws faulty_str None)))
        (format_prompt example_description) 2 [] =
      (Inl (PyExc True (Inr ''__str__ returned non-string (type int)'')),
       [Call (format_prompt example_description)])"
proof -
  let ?p = "format_prompt example_description"
  have "generate_with_retry (configured (always (Throws KeyboardInterrupt None))) ?p 2 [] =
      (Inl KeyboardInterrupt, [] @ [Call ?p])"
    by (rule escapes_not_Exception[where m = "always (Throws KeyboardInterrupt None)"
          and s = None])
       (simp_all add: configured_def always_def KeyboardInterrupt_def)
  moreover
  have "generate_with_retry (configured (always (Throws faulty_str None))) ?p 2 [] =
      (Inl (PyExc True (Inr ''__str__ returned non-string (type int)'')), [] @ [Call ?p])"
    by (rule escapes_str[where m = "always (Throws faulty_str None)" and s = None
          and e = faulty_str])
       (simp_all add: configured_def always_def faulty_str_def)
  ultimately show ?thesis by (simp add: KeyboardInterrupt_def faulty_str_def)
qed

text \<open>
  Claim C5. With demo mode off and no external model configured, every invocation of the
  generator returns at once the failure whose message says that the API is not configured,
  with the rate-limit flag \<open>False\<close>; the log is unchanged, so no external call is made and
  nothing is retried. For every request that passes the validation the endpoint then
  answers with status 500 and the generic configuration-error message.
\<close>

theorem unconfigured_client:
  assumes "\<not> DEMO_MODE cfg" and "model cfg = None"
  shows "generate_with_retry cfg prompt max_retries lg =
           (Inr (False, None, Some ''Gemini API is not configured. Please check your API key.'', False),
            lg)
       \<and> (is_json req \<and> get_json req = Inr (PyDict kvs)
            \<and> map_of kvs ''prompt'' = Some (PyStr s)
            \<and> 10 \<le> length (strip s) \<and> length (strip s) \<le> 5000
          \<longrightarrow> post_generate cfg req lg =
                (Inr (error_response ''Service configuration error. Please try again later.'' 500), lg))"
proof -
  have gen: "generate_with_retry cfg p n lg =
      (Inr (False, None, Some ''Gemini API is not configured. Please check your API key.'', False), lg)"
    for p n
    using assms by (simp add: generate_with_retry_def)
  show ?thesis
  proof (intro conjI impI)
    show "generate_with_retry cfg prompt max_retries lg =
      (Inr (False, None, Some ''Gemini API is not configured. Please check your API key.'', False), lg)"
      by (rule gen)
  next
    assume v: "is_json req \<and> get_json req = Inr (PyDict kvs)
            \<and> map_of kvs ''prompt'' = Some (PyStr s)
            \<and> 10 \<le> length (strip s) \<and> length (strip s) \<le> 5000"
    then have v': "is_json req" "get_json req = Inr (PyDict kvs)"
      "map_of kvs ''prompt'' = Some (PyStr s)" "10 \<le> length (strip s)"
      "length (strip s) \<le> 5000"
      by simp_all
    have "post_generate cfg req lg =
       (Inr (if str_in ''API key'' ''Gemini API is not configured. Please check your API key.'' then
          error_response ''Service configuration error. Please try again later.'' 500
        else if str_in ''quota'' (lower ''Gemini API is not configured. Please check your API key.'')
             \<or> str_in ''rate'' (lower ''Gemini API is not configured. Please check your API key.'')
             \<or> str_in ''429'' ''Gemini API is not configured. Please check your API key.'' then
          rate_limit_response
        else error_response
          ''Unable to generate architecture recommendation. Please try again.'' 503),
        lg)"
      by (rule post_generate_failure[OF v' gen])
    then show "post_generate cfg req lg =
       (Inr (error_response ''Service configuration error. Please try again later.'' 500), lg)"
      by (simp only: configuration_message_API_key if_True)
  qed
qed

theorem unconfigured_client_witness:
  "generate_with_retry unconfigured (format_prompt example_description) 2 [] =
     (Inr (False, None, Some ''Gemini API is not configured. Please check your API key.'', False), [])
   \<and> post_generate unconfigured example_request [] =
     (Inr (error_response ''Service configuration error. Please try again later.'' 500), [])"
  using unconfigured_client[of unconfigured "format_prompt example_description" 2 "[]"
      example_request "[(''prompt'', PyStr example_description)]" example_description]
    example_request_valid
  by (simp add: unconfigured_def)

text \<open>
  Claim C7. With demo mode on, the generator returns for every prompt the same success
  with the fixed sample text and leaves the log unchanged (no external call), and for
  every request that passes the validation the endpoint answers with status 200 and that
  text. The text begins with the heading \<open>Google Cloud Architecture Recommendation\<close>: its
  first content, right after the line break that opens the literal, is the line
  \<open># Google Cloud Architecture Recommendation\<close>.
\<close>

theorem demo_mode_constant:
  assumes "DEMO_MODE cfg"
  shows "generate_with_retry cfg prompt max_retries lg =
           (Inr (True, Some demo_response, None, False), lg)
       \<and> (is_json req \<and> get_json req = Inr (PyDict kvs)
            \<and> map_of kvs ''prompt'' = Some (PyStr s)
            \<and> 10 \<le> length (strip s) \<and> length (strip s) \<le> 5000
          \<longrightarrow> post_generate cfg req lg = (Inr (success_response (Some demo_response)), lg))
       \<and> prefix (CHR 0x0A # ''# Google Cloud Architecture Recommendation'' @ [CHR 0x0A])
            demo_response"
proof -
  have gen: "generate_with_retry cfg p n lg = (Inr (True, Some demo_response, None, False), lg)"
    for p n
    using assms by (simp add: generate_with_retry_def)
  have "post_generate cfg req lg = (Inr (success_response (Some demo_response)), lg)"
    if "is_json req \<and> get_json req = Inr (PyDict kvs)
            \<and> map_of kvs ''prompt'' = Some (PyStr s)
            \<and> 10 \<le> length (strip s) \<and> length (strip s) \<le> 5000"
  proof -
    from that have v': "is_json req" "get_json req = Inr (PyDict kvs)"
      "map_of kvs ''prompt'' = Some (PyStr s)" "10 \<le> length (strip s)"
      "length (strip s) \<le> 5000"
      by simp_all
    show ?thesis by (rule post_generate_success[OF v' gen])
  qed
  moreover have "prefix (CHR 0x0A # ''# Google Cloud Architecture Recommendation'' @ [CHR 0x0A])
            demo_response"
    by (rule demo_response_heading)
  ultimately show ?thesis using gen by blast
qed

theorem demo_mode_constant_witness:
  "generate_with_retry demo (format_prompt example_description) 2 [] =
     (Inr (True, Some demo_response, None, False), [])
   \<and> post_generate demo example_request [] = (Inr (success_response (Some demo_response)), [])"
  using demo_mode_constant[of demo "format_prompt example_description" 2 "[]"
      example_request "[(''prompt'', PyStr example_description)]" example_description]
    example_request_valid
  by (simp add: demo_def)


section \<open>Claims about the request handler\<close>

text \<open>
  Claim C9. When the body is a JSON object with the key \<open>prompt\<close> and the value under it is
  not a string (a number, \<open>null\<close>, a boolean, a list, an object), \<open>strip\<close> raises
  \<open>AttributeError\<close> inside the \<open>try\<close> body, the handler for \<open>Exception\<close> catches it, and the
  endpoint answers with status 500 and the message \<open>An unexpected error occurred\<close>, not
  with a 400 of the validation. The generator is not called.
\<close>

theorem non_string_prompt:
  assumes "is_json req" and "get_json req = Inr (PyDict kvs)"
    and "map_of kvs ''prompt'' = Some v" and "\<forall>s. v \<noteq> PyStr s"
  shows "generate_try gen req lg = (Inl AttributeError, lg)
       \<and> generate gen req lg =
           (Inr (error_response ''An unexpected error occurred. Please try again.'' 500), lg)"
proof -
  from assms(3) have ne: "kvs \<noteq> []" by auto
  from assms(4) have "py_strip v = Inl AttributeError" by (cases v) simp_all
  with assms ne have "generate_try gen req lg = (Inl AttributeError, lg)"
    by (simp add: generate_try_def)
  then show ?thesis by (simp add: generate_def)
qed

theorem non_string_prompt_witness:
  "post_generate demo (prompt_request (PyInt 42)) [] =
     (Inr (error_response ''An unexpected error occurred. Please try again.'' 500), [])
   \<and> post_generate demo (prompt_request PyNone) [] =
     (Inr (error_response ''An unexpected error occurred. Please try again.'' 500), [])
   \<and> post_generate demo (prompt_request (PyList [PyStr ''a web application''])) [] =
     (Inr (error_response ''An unexpected error occurred. Please try again.'' 500), [])
   \<and> post_generate demo (prompt_request (PyDict [(''text'', PyStr ''a web application'')])) [] =
     (Inr (error_response ''An unexpected error occurred. Please try again.'' 500), [])"
  using
    non_string_prompt[of "prompt_request (PyInt 42)" "[(''prompt'', PyInt 42)]" "PyInt 42"
      "\<lambda>prompt. generate_with_retry demo prompt 2" "[]"]
    non_string_prompt[of "prompt_request PyNone" "[(''prompt'', PyNone)]" PyNone
      "\<lambda>prompt. generate_with_retry demo prompt 2" "[]"]
    non_string_prompt[of "prompt_request (PyList [PyStr ''a web application''])"
      "[(''prompt'', PyList [PyStr ''a web application''])]"
      "PyList [PyStr ''a web application'']"
      "\<lambda>prompt. generate_with_retry demo prompt 2" "[]"]
    non_string_prompt[of "prompt_request (PyDict [(''text'', PyStr ''a web application'')])"
      "[(''prompt'', PyDict [(''text'', PyStr ''a web application'')])]"
      "PyDict [(''text'', PyStr ''a web application'')]"
      "\<lambda>prompt. generate_with_retry demo prompt 2" "[]"]
  by (simp add: prompt_request_def post_generate_def)

text \<open>
  Claim C2, as the code has it. The checks of the endpoint run in a fixed order, and the
  first one that fails answers with status 400 and its message while the log stays
  unchanged, whatever the generator is (it is not called): a content type that is not JSON
  gives \<open>Request must be JSON format\<close>; then a parsed body that is falsy (\<open>null\<close>, \<open>false\<close>,
  zero, an empty string, list or object) or an object without the key \<open>prompt\<close> gives
  \<open>Missing required field: prompt\<close>; then a string under \<open>prompt\<close> that is empty after
  trimming gives \<open>cannot be empty\<close>; then a trimmed length below 10 gives
  \<open>at least 10 characters\<close>; then a trimmed length above 5000 gives
  \<open>less than 5000 characters\<close>.
\<close>

theorem validation_order:
  "(\<not> is_json req \<longrightarrow>
      generate gen req lg = (Inr (error_response ''Request must be JSON format'' 400), lg))
   \<and> (is_json req \<and> get_json req = Inr data
        \<and> (\<not> truthy data \<or> (\<exists>kvs. data = PyDict kvs \<and> map_of kvs ''prompt'' = None)) \<longrightarrow>
      generate gen req lg = (Inr (error_response ''Missing required field: prompt'' 400), lg))
   \<and> (is_json req \<and> get_json req = Inr (PyDict kvs)
        \<and> map_of kvs ''prompt'' = Some (PyStr s) \<and> strip s = [] \<longrightarrow>
      generate gen req lg = (Inr (error_response ''Project description cannot be empty'' 400), lg))
   \<and> (is_json req \<and> get_json req = Inr (PyDict kvs)
        \<and> map_of kvs ''prompt'' = Some (PyStr s) \<and> strip s \<noteq> [] \<and> length (strip s) < 10 \<longrightarrow>
      generate gen req lg =
        (Inr (error_response ''Project description must be at least 10 characters long'' 400), lg))
   \<and> (is_json req \<and> get_json req = Inr (PyDict kvs)
        \<and> map_of kvs ''prompt'' = Some (PyStr s) \<and> 5000 < length (strip s) \<longrightarrow>
      generate gen req lg =
        (Inr (error_response ''Project description must be less than 5000 characters'' 400), lg))"
proof (intro conjI impI)
  assume "\<not> is_json req"
  then show "generate gen req lg = (Inr (error_response ''Request must be JSON format'' 400), lg)"
    by (simp add: generate_def generate_try_def)
next
  assume a: "is_json req \<and> get_json req = Inr data
        \<and> (\<not> truthy data \<or> (\<exists>kvs. data = PyDict kvs \<and> map_of kvs ''prompt'' = None))"
  then have "(if \<not> truthy data then Inr True
              else case py_in ''prompt'' data of Inl e \<Rightarrow> Inl e | Inr b \<Rightarrow> Inr (\<not> b))
             = (Inr True :: exn + bool)"
    by auto
  with a show "generate gen req lg = (Inr (error_response ''Missing required field: prompt'' 400), lg)"
    by (simp add: generate_def generate_try_def)
next
  assume a: "is_json req \<and> get_json req = Inr (PyDict kvs)
        \<and> map_of kvs ''prompt'' = Some (PyStr s) \<and> strip s = []"
  then have "kvs \<noteq> []" by auto
  with a show "generate gen req lg =
      (Inr (error_response ''Project description cannot be empty'' 400), lg)"
    by (simp add: generate_def generate_try_def)
next
  assume a: "is_json req \<and> get_json req = Inr (PyDict kvs)
        \<and> map_of kvs ''prompt'' = Some (PyStr s) \<and> strip s \<noteq> [] \<and> length (strip s) < 10"
  then have "kvs \<noteq> []" by auto
  with a show "generate gen req lg =
      (Inr (error_response ''Project description must be at least 10 characters long'' 400), lg)"
    by (simp add: generate_def generate_try_def)
next
  assume a: "is_json req \<and> get_json req = Inr (PyDict kvs)
        \<and> map_of kvs ''prompt'' = Some (PyStr s) \<and> 5000 < length (strip s)"
  then have "kvs \<noteq> []" and "strip s \<noteq> []" by auto
  with a show "generate gen req lg =
      (Inr (error_response ''Project description must be less than 5000 characters'' 400), lg)"
    by (simp add: generate_def generate_try_def)
qed

theorem validation_order_witness:
  "post_generate demo (example_request\<lparr>is_json := False\<rparr>) [] =
     (Inr (error_response ''Request must be JSON format'' 400), [])
   \<and> post_generate demo \<lparr>is_json = True, get_json = Inr (PyDict [])\<rparr> [] =
     (Inr (error_response ''Missing required field: prompt'' 400), [])
   \<and> post_generate demo (prompt_request (PyStr ''   '')) [] =
     (Inr (error_response ''Project description cannot be empty'' 400), [])
   \<and> post_generate demo (prompt_request (PyStr ''short'')) [] =
     (Inr (error_response ''Project description must be at least 10 characters long'' 400), [])
   \<and> post_generate demo (prompt_request (PyStr (replicate 5001 (CHR ''x'')))) [] =
     (Inr (error_response ''Project description must be less than 5000 characters'' 400), [])"
proof -
  let ?gen = "\<lambda>prompt. generate_with_retry demo prompt 2"
  have x: "strip (replicate 5001 (CHR ''x'')) = replicate 5001 (CHR ''x'')"
    by (rule strip_replicate) (simp add: isspace_def)
  have blank: "strip ''   '' = []"
    by (simp add: strip_def isspace_def)
  have short: "strip ''short'' = ''short''"
    by (simp add: strip_def isspace_def)
  show ?thesis
    using
      validation_order[of "example_request\<lparr>is_json := False\<rparr>" ?gen "[]"]
      validation_order[of "\<lparr>is_json = True, get_json = Inr (PyDict [])\<rparr>" ?gen "[]"
        "PyDict []"]
      validation_order[of "prompt_request (PyStr ''   '')" ?gen "[]" _
        "[(''prompt'', PyStr ''   '')]" "''   ''"]
      validation_order[of "prompt_request (PyStr ''short'')" ?gen "[]" _
        "[(''prompt'', PyStr ''short'')]" "''short''"]
      validation_order[of "prompt_request (PyStr (replicate 5001 (CHR ''x'')))" ?gen "[]" _
        "[(''prompt'', PyStr (replicate 5001 (CHR ''x'')))]" "replicate 5001 (CHR ''x'')"]
    by (simp add: prompt_request_def post_generate_def x blank short)
qed

theorem malformed_body_counterexample:
  "is_json malformed_json_request
   \<and> get_json malformed_json_request = Inl BadRequest
   \<and> post_generate demo malformed_json_request [] =
       (Inr (error_response ''An unexpected error occurred. Please try again.'' 500), [])
   \<and> status_of (post_generate demo malformed_json_request []) \<noteq> Some 400"
  by (simp add: malformed_json_request_def post_generate_def generate_def generate_try_def
      error_response_def status_of_def)

text \<open>
  Claim C3. Whenever the generator returns a failure for a request that passed the
  validation, the failure carries a message and the endpoint decides on the text of that
  message alone: a message containing \<open>API key\<close> gives status 500 with the fixed
  configuration-error body; otherwise a message containing \<open>quota\<close> or \<open>rate\<close> in any case,
  or \<open>429\<close>, gives status 429 with a fixed body and the header \<open>Retry-After: 60\<close>; every
  other message gives status 503 with the fixed retry-later body. Each of the three
  responses is a constant: no part of it is taken from the message.
\<close>

theorem failure_classification:
  assumes "is_json req" and "get_json req = Inr (PyDict kvs)"
    and "map_of kvs ''prompt'' = Some (PyStr s)"
    and "10 \<le> length (strip s)" and "length (strip s) \<le> 5000"
    and "generate_with_retry cfg (format_prompt (strip s)) 2 lg = (Inr (False, t, e, rl), lg')"
  shows "\<exists>msg. e = Some msg \<and>
     post_generate cfg req lg =
       (Inr (if str_in ''API key'' msg then
          error_response ''Service configuration error. Please try again later.'' 500
        else if str_in ''quota'' (lower msg) \<or> str_in ''rate'' (lower msg) \<or> str_in ''429'' msg then
          \<lparr>body = [(''status'', PyStr ''error''),
                   (''error'', PyStr ''Service temporarily unavailable due to high demand. Please try again in a few minutes.'')],
           status = 429, headers = [(''Retry-After'', ''60'')]\<rparr>
        else error_response
          ''Unable to generate architecture recommendation. Please try again.'' 503),
        lg')"
proof -
  from generate_with_retry_returned[OF assms(6)]
  obtain msg where e: "e = Some msg" by auto
  from post_generate_failure[OF assms(1-5) assms(6)[unfolded e]] e
  show ?thesis by (simp add: rate_limit_response_def)
qed

theorem failure_classification_witness:
  "post_generate unconfigured example_request [] =
     (Inr (error_response ''Service configuration error. Please try again later.'' 500), [])
   \<and> post_generate (configured (always_raises ''Resource has been exhausted (e.g. check quota).''))
       example_request [] =
     (Inr \<lparr>body = [(''status'', PyStr ''error''),
               (''error'', PyStr ''Service temporarily unavailable due to high demand. Please try again in a few minutes.'')],
       status = 429, headers = [(''Retry-After'', ''60'')]\<rparr>,
      [Call (format_prompt example_description), Sleep 1,
       Call (format_prompt example_description), Sleep 2,
       Call (format_prompt example_description)])
   \<and> post_generate (configured (always_raises ''API Error'')) example_request [] =
     (Inr (error_response ''Unable to generate architecture recommendation. Please try again.'' 503),
      [Call (format_prompt example_description)])"
proof -
  let ?p = "format_prompt (strip example_description)"
  have 1: "generate_with_retry unconfigured ?p 2 [] =
      (Inr (False, None, Some ''Gemini API is not configured. Please check your API key.'', False), [])"
    by (simp add: generate_with_retry_def unconfigured_def)
  have "is_rate ''Resource has been exhausted (e.g. check quota).''"
    by code_simp
  from always_raises_rate_limited[OF this, of ?p "[]"]
  have 2: "generate_with_retry
      (configured (always_raises ''Resource has been exhausted (e.g. check quota).'')) ?p 2 [] =
      (Inr (False, None,
        Some (''Error generating architecture recommendation: '' @
              ''Resource has been exhausted (e.g. check quota).''), True),
       [Call ?p, Sleep 1, Call ?p, Sleep 2, Call ?p])"
    by simp
  have "\<not> is_rate ''API Error''"
    by code_simp
  from always_raises_other[OF this, of ?p "[]"]
  have 3: "generate_with_retry (configured (always_raises ''API Error'')) ?p 2 [] =
      (Inr (False, None, Some (''Error generating architecture recommendation: '' @ ''API Error''),
        False), [Call ?p])"
    by simp
  have a: "str_in ''API key'' ''Gemini API is not configured. Please check your API key.''"
    by (rule configuration_message_API_key)
  have b: "\<not> str_in ''API key''
      (''Error generating architecture recommendation: '' @
       ''Resource has been exhausted (e.g. check quota).'')"
    "str_in ''quota'' (lower (''Error generating architecture recommendation: '' @
       ''Resource has been exhausted (e.g. check quota).''))"
    by code_simp+
  have c: "\<not> str_in ''API key'' (''Error generating architecture recommendation: '' @ ''API Error'')"
    "\<not> str_in ''quota'' (lower (''Error generating architecture recommendation: '' @ ''API Error''))"
    "\<not> str_in ''rate'' (lower (''Error generating architecture recommendation: '' @ ''API Error''))"
    "\<not> str_in ''429'' (''Error generating architecture recommendation: '' @ ''API Error'')"
    by code_simp+
  from failure_classification[OF example_request_valid 1]
  have "post_generate unconfigured example_request [] =
     (Inr (error_response ''Service configuration error. Please try again later.'' 500), [])"
    using a by simp
  moreover from failure_classification[OF example_request_valid 2]
  have "post_generate (configured (always_raises ''Resource has been exhausted (e.g. check quota).''))
       example_request [] =
     (Inr \<lparr>body = [(''status'', PyStr ''error''),
               (''error'', PyStr ''Service temporarily unavailable due to high demand. Please try again in a few minutes.'')],
       status = 429, headers = [(''Retry-After'', ''60'')]\<rparr>,
      [Call ?p, Sleep 1, Call ?p, Sleep 2, Call ?p])"
    using b by (simp del: append.simps)
  moreover from failure_classification[OF example_request_valid 3]
  have "post_generate (configured (always_raises ''API Error'')) example_request [] =
     (Inr (error_response ''Unable to generate architecture recommendation. Please try again.'' 503),
      [Call ?p])"
    using c by (simp del: append.simps)
  ultimately show ?thesis by (simp only: example_strip)
qed

text \<open>
  Claim C8. \<open>generate_architecture_recommendation\<close> drops the rate-limit flag of the
  generator, and the response of the endpoint does not depend on it: for two generators
  whose outcomes for the prompt of a valid request differ at most in the flag (in
  particular two failures with the same message), the function passes on the same triple
  and the endpoint gives the same response, status, headers and body alike.
\<close>

theorem rate_limited_flag_ignored:
  assumes "is_json req" and "get_json req = Inr (PyDict kvs)"
    and "map_of kvs ''prompt'' = Some (PyStr s)"
    and "10 \<le> length (strip s)" and "length (strip s) \<le> 5000"
    and "gen1 (format_prompt (strip s)) lg = (Inr (success, t, e, rl1), lg')"
    and "gen2 (format_prompt (strip s)) lg = (Inr (success, t, e, rl2), lg')"
  shows "generate_architecture_recommendation gen1 (strip s) lg =
           generate_architecture_recommendation gen2 (strip s) lg
       \<and> generate gen1 req lg = generate gen2 req lg"
proof -
  have "generate_architecture_recommendation gen1 (strip s) lg =
        generate_architecture_recommendation gen2 (strip s) lg"
    using assms(6,7) by (simp add: generate_architecture_recommendation_def)
  moreover have "generate_try gen1 req lg = generate_try gen2 req lg"
    unfolding generate_try_valid[where gen = gen1, OF assms(1-5) assms(6)]
      generate_try_valid[where gen = gen2, OF assms(1-5) assms(7)] ..
  ultimately show ?thesis by (simp add: generate_def)
qed

theorem rate_limited_flag_ignored_witness:
  "generate (constant_generator (False, None, Some ''limit reached'', True)) example_request [] =
   generate (constant_generator (False, None, Some ''limit reached'', False)) example_request []"
  using rate_limited_flag_ignored
    [where ?gen1.0 = "constant_generator (False, None, Some ''limit reached'', True)"
       and ?gen2.0 = "constant_generator (False, None, Some ''limit reached'', False)"
       and lg = "[]" and lg' = "[]" and success = False and t = None
       and e = "Some ''limit reached''" and ?rl1.0 = True and ?rl2.0 = False,
     OF example_request_valid]
  by (simp add: constant_generator_def)


section \<open>Claims about the generator and the endpoint together\<close>


lemma rate_limited_endpoint:
  assumes "\<not> DEMO_MODE cfg" and "model cfg = Some m"
    and "\<forall>h p. \<exists>msg. m h p = Raises msg \<and> is_rate msg"
    and "is_json req" and "get_json req = Inr (PyDict kvs)"
    and "map_of kvs ''prompt'' = Some (PyStr s)"
    and "10 \<le> length (strip s)" and "length (strip s) \<le> 5000"
    and "prompt = format_prompt (strip s)"
  shows "\<exists>msg. m (lg @ [Call prompt, Sleep 1, Call prompt, Sleep 2]) prompt = Raises msg
     \<and> is_rate msg
     \<and> post_generate cfg req lg =
         (Inr (if str_in ''API key'' msg then
            error_response ''Service configuration error. Please try again later.'' 500
          else if str_in ''quota'' (lower msg) \<or> str_in ''rate'' (lower msg) \<or> str_in ''429'' msg then
            rate_limit_response
          else error_response
            ''Unable to generate architecture recommendation. Please try again.'' 503),
          lg @ [Call prompt, Sleep 1, Call prompt, Sleep 2, Call prompt])"
proof -
  from three_attempts[OF assms(1-3), of lg prompt]
  obtain msg where msg: "m (lg @ [Call prompt, Sleep 1, Call prompt, Sleep 2]) prompt = Raises msg"
      "is_rate msg"
    and gen: "generate_with_retry cfg prompt 2 lg =
      (Inr (False, None, Some (''Error generating architecture recommendation: '' @ msg), True),
       lg @ [Call prompt, Sleep 1, Call prompt, Sleep 2, Call prompt])"
    by blast
  from post_generate_error_text[OF assms(4-8) gen[unfolded assms(9)]] msg
  show ?thesis unfolding assms(9) by blast
qed







text \<open>
  The endpoint's test on the message has no entry for \<open>too many requests\<close>, which the
  generator's heuristic has: an exception text with only this mark is retried as rate
  limited, and the endpoint then answers with status 503.
\<close>

lemma too_many_requests_only:
  "is_rate ''Too Many Requests''
   \<and> post_generate (configured (always_raises ''Too Many Requests'')) example_request [] =
     (Inr (error_response ''Unable to generate architecture recommendation. Please try again.'' 503),
      [Call (format_prompt example_description), Sleep 1,
       Call (format_prompt example_description), Sleep 2,
       Call (format_prompt example_description)])"
proof -
  let ?msg = "''Too Many Requests''"
  let ?m = "always_raises ?msg"
  have r: "is_rate ?msg" by code_simp
  have k: "\<not> str_in ''API key'' ?msg" "\<not> str_in ''quota'' (lower ?msg)"
    "\<not> str_in ''rate'' (lower ?msg)" "\<not> str_in ''429'' ?msg"
    by code_simp+
  have h: "\<forall>h p. \<exists>msg. ?m h p = Raises msg \<and> is_rate msg"
    using r by (simp add: always_raises_def)
  have c: "\<not> DEMO_MODE (configured ?m)" "model (configured ?m) = Some ?m"
    by (simp_all add: configured_def)
  from rate_limited_endpoint[OF c h example_request_valid refl, of "[]"]
  have "post_generate (configured ?m) example_request [] =
     (Inr (error_response ''Unable to generate architecture recommendation. Please try again.'' 503),
      [Call (format_prompt example_description), Sleep 1,
       Call (format_prompt example_description), Sleep 2,
       Call (format_prompt example_description)])"
    using k by (auto simp add: always_raises_def example_strip)
  with r show ?thesis by simp
qed

end
